theory Spec2Isabelle
  imports Complex_Main
begin

section \<open>Numbers and dates\<close>

text \<open>
  The TypeScript type \<open>number\<close> is read as the real numbers: every arithmetic operation of
  the source is the exact operation on \<open>real\<close>, \<open>Math.exp\<close> is \<open>exp\<close>, \<open>Math.sqrt\<close> is
  \<open>sqrt\<close>. Rounding of IEEE doubles is outside this reading. The values \<open>NaN\<close> and
  the infinities are outside it too, except in the item selector, whose ability and scores
  are values of the type \<open>number\<close> below: its running maximum starts at \<open>-Infinity\<close>, and
  its result turns on a comparison that is false for \<open>NaN\<close>.

  A \<open>Date\<close> is the number of milliseconds on the local wall clock since a fixed local
  midnight; one calendar day has 86400000 of them (no daylight-saving shifts).
\<close>

type_synonym date = int

definition MS_PER_DAY :: int where
  "MS_PER_DAY = 86400000"

text \<open>\<open>d.setDate(d.getDate() + n)\<close>: the same time of day, \<open>n\<close> calendar days later.\<close>

definition addDays :: "date \<Rightarrow> int \<Rightarrow> date" where
  "addDays d n = d + n * MS_PER_DAY"

text \<open>\<open>d.setHours(23, 59, 59, 999)\<close>: the last millisecond of the calendar day of \<open>d\<close>.\<close>

definition setHours_end :: "date \<Rightarrow> date" where
  "setHours_end d = (d div MS_PER_DAY) * MS_PER_DAY + (MS_PER_DAY - 1)"

text \<open>\<open>Math.round\<close>: the nearest integer, a tie going up.\<close>

definition Math_round :: "real \<Rightarrow> real" where
  "Math_round x = of_int \<lfloor>x + 1 / 2\<rfloor>"

text \<open>\<open>clamp(value, min, max) = Math.max(min, Math.min(max, value))\<close>, the utility function of
  both modules.\<close>

definition clamp :: "real \<Rightarrow> real \<Rightarrow> real \<Rightarrow> real" where
  "clamp v lo hi = max lo (min hi v)"


section \<open>Item response theory engine (src/lib/irt.ts)\<close>

record IRTParameters =
  difficulty :: real
  discrimination :: real
  guessing :: real

text \<open>The field \<open>probabilityCorrect\<close> of the source's \<open>IRTResult\<close> carries a suffix here,
  the name being the function's.\<close>

record IRTResult =
  thetaBefore :: real
  thetaAfter :: real
  thetaChange :: real
  probabilityCorrect_field :: real
  information :: real

text \<open>\<open>QuestionIRT extends IRTParameters\<close>; its field \<open>id\<close> is \<open>qid\<close> here (\<open>id\<close> is the
  identity function of HOL).\<close>

record QuestionIRT = IRTParameters +
  qid :: string
  subjectId :: string
  topicId :: string

definition THETA_MIN :: real where
  "THETA_MIN = - 3"

definition THETA_MAX :: real where
  "THETA_MAX = 3"

definition DISCRIMINATION_MIN :: real where
  "DISCRIMINATION_MIN = 0.5"

definition DISCRIMINATION_MAX :: real where
  "DISCRIMINATION_MAX = 2.5"

definition GUESSING_DEFAULT :: real where
  "GUESSING_DEFAULT = 0.25"

definition probabilityCorrect :: "real \<Rightarrow> 'a IRTParameters_scheme \<Rightarrow> real" where
  "probabilityCorrect theta params =
     (let t = clamp theta THETA_MIN THETA_MAX;
          b = clamp (difficulty params) THETA_MIN THETA_MAX;
          a = clamp (discrimination params) DISCRIMINATION_MIN DISCRIMINATION_MAX;
          c = clamp (guessing params) 0 0.5;
          exponent = - a * (t - b)
      in c + (1 - c) / (1 + exp exponent))"

definition fisherInformation :: "real \<Rightarrow> 'a IRTParameters_scheme \<Rightarrow> real" where
  "fisherInformation theta params =
     (let P = probabilityCorrect theta params;
          Q = 1 - P;
          a = clamp (discrimination params) DISCRIMINATION_MIN DISCRIMINATION_MAX;
          c = clamp (guessing params) 0 0.5;
          numerator = a * a * P * Q;
          denominator = (P - c) ^ 2
      in if denominator = 0 then 0
         else numerator / denominator * (1 - c) ^ 2)"

definition updateTheta :: "real \<Rightarrow> 'a IRTParameters_scheme \<Rightarrow> bool \<Rightarrow> IRTResult" where
  "updateTheta currentTheta params isCorrect =
     (let thetaBefore = currentTheta;
          P = probabilityCorrect currentTheta params;
          I = fisherInformation currentTheta params
      in if I < 0.001 then
           \<lparr>thetaBefore = thetaBefore, thetaAfter = thetaBefore, thetaChange = 0,
            probabilityCorrect_field = P, information = I\<rparr>
         else
           (let observed = (if isCorrect then 1 else 0);
                thetaChange = (observed - P) / I;
                dampingFactor = 0.7;
                adjustedChange = thetaChange * dampingFactor;
                thetaAfter = clamp (thetaBefore + adjustedChange) THETA_MIN THETA_MAX
            in \<lparr>thetaBefore = thetaBefore, thetaAfter = thetaAfter,
                thetaChange = thetaAfter - thetaBefore,
                probabilityCorrect_field = P, information = I\<rparr>))"

text \<open>
  A \<open>number\<close> of the selector: \<open>NaN\<close>, one of the two infinities, or a real number.
\<close>

datatype number = NaN | NegInfinity | PosInfinity | Finite real

text \<open>
  \<open>fisherInformation\<close> at an ability of type \<open>number\<close>. The source reads theta only
  through \<open>clamp(theta, THETA_MIN, THETA_MAX)\<close> in \<open>probabilityCorrect\<close>. For \<open>NaN\<close>,
  \<open>Math.min\<close> and \<open>Math.max\<close> return \<open>NaN\<close>, every later operation returns \<open>NaN\<close> and the
  test \<open>denominator === 0\<close> is false, so the result is \<open>NaN\<close>. An infinite ability is
  clamped to the bound on its side.
\<close>

definition fisherInformation_number :: "number \<Rightarrow> 'a IRTParameters_scheme \<Rightarrow> number" where
  "fisherInformation_number theta params =
     (case theta of
        NaN \<Rightarrow> NaN
      | NegInfinity \<Rightarrow> Finite (fisherInformation THETA_MIN params)
      | PosInfinity \<Rightarrow> Finite (fisherInformation THETA_MAX params)
      | Finite t \<Rightarrow> Finite (fisherInformation t params))"

text \<open>The product \<open>information * randomFactor\<close> of a \<open>number\<close> and a real factor.\<close>

fun times_number :: "number \<Rightarrow> real \<Rightarrow> number" where
  "times_number NaN r = NaN"
| "times_number (Finite x) r = Finite (x * r)"
| "times_number PosInfinity r =
     (if r > 0 then PosInfinity else if r < 0 then NegInfinity else NaN)"
| "times_number NegInfinity r =
     (if r > 0 then NegInfinity else if r < 0 then PosInfinity else NaN)"

text \<open>The comparison \<open>x > y\<close> of two \<open>number\<close>s: false when either side is \<open>NaN\<close>.\<close>

fun greater_number :: "number \<Rightarrow> number \<Rightarrow> bool" where
  "greater_number NaN y = False"
| "greater_number x NaN = False"
| "greater_number NegInfinity y = False"
| "greater_number PosInfinity PosInfinity = False"
| "greater_number PosInfinity y = True"
| "greater_number (Finite x) NegInfinity = True"
| "greater_number (Finite x) PosInfinity = False"
| "greater_number (Finite x) (Finite y) = (x > y)"

text \<open>
  The selection loop of \<open>selectOptimalQuestion\<close>. Its state is \<open>maxInformation\<close>, which
  starts at \<open>-Infinity\<close>, and \<open>optimalQuestion\<close> (\<open>None\<close> for \<open>null\<close>). The values of
  \<open>Math.random()\<close>, real numbers from 0 up to but not 1, are a stream \<open>rnd\<close>, the call
  number \<open>k\<close> of the loop reading \<open>rnd k\<close>.
\<close>

fun select_loop ::
  "number \<Rightarrow> (nat \<Rightarrow> real) \<Rightarrow> nat \<Rightarrow> QuestionIRT list \<Rightarrow> number \<Rightarrow> QuestionIRT option
     \<Rightarrow> QuestionIRT option" where
  "select_loop currentTheta rnd k [] maxInformation optimalQuestion = optimalQuestion"
| "select_loop currentTheta rnd k (question # rest) maxInformation optimalQuestion =
     (let params = \<lparr>difficulty = difficulty question,
                     discrimination = discrimination question,
                     guessing = GUESSING_DEFAULT\<rparr>;
          information = fisherInformation_number currentTheta params;
          randomFactor = 0.95 + rnd k * 0.1;
          adjustedInfo = times_number information randomFactor
      in if greater_number adjustedInfo maxInformation
         then select_loop currentTheta rnd (Suc k) rest adjustedInfo (Some question)
         else select_loop currentTheta rnd (Suc k) rest maxInformation optimalQuestion)"

definition selectOptimalQuestion ::
  "number \<Rightarrow> QuestionIRT list \<Rightarrow> string set \<Rightarrow> (nat \<Rightarrow> real) \<Rightarrow> QuestionIRT option" where
  "selectOptimalQuestion currentTheta questions answeredQuestionIds rnd =
     (let availableQuestions = filter (\<lambda>q. qid q \<notin> answeredQuestionIds) questions
      in if length availableQuestions = 0 then None
         else select_loop currentTheta rnd 0 availableQuestions NegInfinity None)"

definition calculateStandardError :: "real \<Rightarrow> 'a IRTParameters_scheme list \<Rightarrow> real" where
  "calculateStandardError theta questionParams =
     (let totalInformation =
            foldl (\<lambda>total params. total + fisherInformation theta params) 0 questionParams
      in if totalInformation \<le> 0 then THETA_MAX - THETA_MIN
         else 1 / sqrt totalInformation)"

text \<open>
  The reason texts of \<open>shouldStopCAT\<close>, in the order of the source: \<open>'Maximum questions
  reached'\<close>, \<open>`Target precision achieved (SE = ...)`\<close>, \<open>'Minimum questions not reached'\<close>
  and \<open>`SE = ..., continuing`\<close>. The two that print the standard error carry it.
\<close>

datatype stop_reason =
    Maximum_questions_reached
  | Target_precision_achieved real
  | Minimum_questions_not_reached
  | SE_continuing real

record stop_decision =
  stop :: bool
  reason :: stop_reason

definition shouldStopCAT ::
  "real \<Rightarrow> 'a IRTParameters_scheme list \<Rightarrow> real \<Rightarrow> real \<Rightarrow> real \<Rightarrow> stop_decision" where
  "shouldStopCAT theta questionParams maxQuestions currentQuestionCount targetSE =
     (if currentQuestionCount \<ge> maxQuestions then
        \<lparr>stop = True, reason = Maximum_questions_reached\<rparr>
      else
        (let se = calculateStandardError theta questionParams
         in if se < targetSE then \<lparr>stop = True, reason = Target_precision_achieved se\<rparr>
            else if currentQuestionCount < 5 then
              \<lparr>stop = False, reason = Minimum_questions_not_reached\<rparr>
            else \<lparr>stop = False, reason = SE_continuing se\<rparr>))"


section \<open>Spaced repetition (the SM-2 module in src/app/page.tsx)\<close>

record SM2Parameters =
  easeFactor :: real
  interval :: real
  repetitions :: real

text \<open>\<open>SM2Result\<close> has the three fields of \<open>SM2Parameters\<close> and two more, so a result is
  accepted where parameters are expected, as in the source's structural typing. Its date
  field carries a suffix, \<open>ReviewItem\<close> having one of the same name.\<close>

record SM2Result = SM2Parameters +
  nextReviewDate_result :: date
  quality :: real

record ReviewItem = SM2Parameters +
  rid :: string
  userId :: string
  topicId_item :: string
  lastReviewDate :: "date option"
  nextReviewDate :: date

definition QUALITY_MIN :: real where
  "QUALITY_MIN = 0"

definition QUALITY_MAX :: real where
  "QUALITY_MAX = 5"

definition EASE_FACTOR_MIN :: real where
  "EASE_FACTOR_MIN = 1.3"

definition EASE_FACTOR_DEFAULT :: real where
  "EASE_FACTOR_DEFAULT = 2.5"

definition INTERVALS_FIRST :: real where
  "INTERVALS_FIRST = 1"

definition INTERVALS_SECOND :: real where
  "INTERVALS_SECOND = 3"

text \<open>
  \<open>calculateNextReview\<close>; the clock read by \<open>new Date()\<close> is the argument \<open>now\<close>. On
  every path the interval is a whole number when the date is computed (1, 3 or a result
  of \<open>Math.round\<close>), so \<open>\<lfloor>interval\<rfloor>\<close> is that number of days.
\<close>

definition calculateNextReview :: "date \<Rightarrow> 'a SM2Parameters_scheme \<Rightarrow> real \<Rightarrow> SM2Result" where
  "calculateNextReview now currentParams quality_in =
     (let q = clamp quality_in QUALITY_MIN QUALITY_MAX;
          (interval1, repetitions1) =
            (if q < 3 then (INTERVALS_FIRST, 0)
             else
               (let repetitions' = repetitions currentParams + 1
                in if repetitions' = 1 then (INTERVALS_FIRST, repetitions')
                   else if repetitions' = 2 then (INTERVALS_SECOND, repetitions')
                   else (Math_round (interval currentParams * easeFactor currentParams),
                         repetitions')));
          easeFactor1 = easeFactor currentParams + (0.1 - (5 - q) * (0.08 + (5 - q) * 0.02));
          easeFactor2 = max EASE_FACTOR_MIN easeFactor1;
          nextReviewDate' = addDays now \<lfloor>interval1\<rfloor>
      in \<lparr>easeFactor = easeFactor2, interval = interval1, repetitions = repetitions1,
          nextReviewDate_result = nextReviewDate', quality = q\<rparr>)"

text \<open>A run of reviews, each call fed the result of the call before it; a step is the
  clock reading of the call and the quality rating given.\<close>

fun review_run :: "SM2Result \<Rightarrow> (date \<times> real) list \<Rightarrow> SM2Result" where
  "review_run current [] = current"
| "review_run current ((now, q) # rest) = review_run (calculateNextReview now current q) rest"

definition getDueReviews :: "ReviewItem list \<Rightarrow> date \<Rightarrow> ReviewItem list" where
  "getDueReviews items asOfDate =
     (let today = setHours_end asOfDate
      in filter (\<lambda>item. nextReviewDate item \<le> today) items)"

text \<open>Replacing the guessing parameter of a candidate, all other fields kept.\<close>

definition set_guessing :: "(QuestionIRT \<Rightarrow> real) \<Rightarrow> QuestionIRT \<Rightarrow> QuestionIRT" where
  "set_guessing f q = q\<lparr>guessing := f q\<rparr>"


section \<open>Concrete inputs\<close>

text \<open>Items, cards and questions at which the functions are evaluated below. All parameters
  are inside the ranges the source documents.\<close>

definition strong_item :: IRTParameters where
  "strong_item = \<lparr>difficulty = 0, discrimination = 2.5, guessing = 0\<rparr>"

definition flat_item :: IRTParameters where
  "flat_item = \<lparr>difficulty = - 3, discrimination = 2.5, guessing = 0\<rparr>"

definition edge_item :: IRTParameters where
  "edge_item = \<lparr>difficulty = 3, discrimination = 1, guessing = 0\<rparr>"

definition plain_item :: IRTParameters where
  "plain_item = \<lparr>difficulty = 0, discrimination = 1, guessing = 0\<rparr>"

definition mcq_item :: IRTParameters where
  "mcq_item = \<lparr>difficulty = 0, discrimination = 1, guessing = 0.25\<rparr>"

definition q_one :: QuestionIRT where
  "q_one = \<lparr>difficulty = 0, discrimination = 1, guessing = 0.25,
            qid = ''q1'', subjectId = ''maths'', topicId = ''algebra''\<rparr>"

definition q_two :: QuestionIRT where
  "q_two = \<lparr>difficulty = 1, discrimination = 2, guessing = 0.2,
            qid = ''q2'', subjectId = ''maths'', topicId = ''algebra''\<rparr>"

definition half_stream :: "nat \<Rightarrow> real" where
  "half_stream k = 1 / 2"

definition new_card :: SM2Parameters where
  "new_card = \<lparr>easeFactor = EASE_FACTOR_DEFAULT, interval = 1, repetitions = 0\<rparr>"

definition mature_card :: SM2Parameters where
  "mature_card = \<lparr>easeFactor = 2.5, interval = 30, repetitions = 5\<rparr>"

definition floor_card :: SM2Result where
  "floor_card = \<lparr>easeFactor = 1.3, interval = 1, repetitions = 0,
                 nextReviewDate_result = 0, quality = 0\<rparr>"

definition due_item :: ReviewItem where
  "due_item = \<lparr>easeFactor = 2.5, interval = 3, repetitions = 2, rid = ''r1'', userId = ''u1'',
      topicId_item = ''t1'', lastReviewDate = Some 1000, nextReviewDate = addDays 1000 3\<rparr>"

section \<open>Clamping and the response probability\<close>

lemma clamp_bounds: "lo \<le> hi \<Longrightarrow> lo \<le> clamp v lo hi \<and> clamp v lo hi \<le> hi"
  by (simp add: clamp_def)

lemma clamp_mono: "v \<le> w \<Longrightarrow> clamp v lo hi \<le> clamp w lo hi"
  by (simp add: clamp_def)

lemma clamp_add_ge: "v \<le> hi \<Longrightarrow> 0 \<le> d \<Longrightarrow> v \<le> clamp (v + d) lo hi"
  by (simp add: clamp_def max_def min_def)

lemma clamp_add_le: "lo \<le> v \<Longrightarrow> d \<le> 0 \<Longrightarrow> clamp (v + d) lo hi \<le> v"
  by (simp add: clamp_def max_def min_def)

lemma clamp_id: "lo \<le> v \<Longrightarrow> v \<le> hi \<Longrightarrow> clamp v lo hi = v"
  by (simp add: clamp_def)

lemma logistic_strict:
  fixes a c t1 t2 b :: real
  assumes "0 < a" "c < 1" "t1 < t2"
  shows "c + (1 - c) / (1 + exp (- a * (t1 - b))) < c + (1 - c) / (1 + exp (- a * (t2 - b)))"
proof -
  have "- a * (t2 - b) < - a * (t1 - b)" using assms by simp
  then have "exp (- a * (t2 - b)) < exp (- a * (t1 - b))" by simp
  then have "1 + exp (- a * (t2 - b)) < 1 + exp (- a * (t1 - b))" by simp
  moreover have "0 < 1 + exp (- a * (t2 - b))" by (simp add: add_pos_pos)
  ultimately have "1 / (1 + exp (- a * (t1 - b))) < 1 / (1 + exp (- a * (t2 - b)))"
    by (simp add: frac_less2)
  then have "(1 - c) * (1 / (1 + exp (- a * (t1 - b))))
               < (1 - c) * (1 / (1 + exp (- a * (t2 - b))))"
    using assms(2) by (simp only: mult_less_cancel_left_pos diff_gt_0_iff_gt)
  then show ?thesis by simp
qed

lemma probabilityCorrect_strict:
  assumes "clamp theta1 THETA_MIN THETA_MAX < clamp theta2 THETA_MIN THETA_MAX"
  shows "probabilityCorrect theta1 params < probabilityCorrect theta2 params"
proof -
  have a: "0 < clamp (discrimination params) DISCRIMINATION_MIN DISCRIMINATION_MAX"
    by (simp add: clamp_def DISCRIMINATION_MIN_def)
  have c: "clamp (guessing params) 0 0.5 < 1"
    by (simp add: clamp_def)
  show ?thesis unfolding probabilityCorrect_def Let_def
    by (rule logistic_strict [OF a c assms])
qed

lemma probabilityCorrect_mono:
  assumes "theta1 \<le> theta2"
  shows "probabilityCorrect theta1 params \<le> probabilityCorrect theta2 params"
proof (cases "clamp theta1 THETA_MIN THETA_MAX < clamp theta2 THETA_MIN THETA_MAX")
  case True
  then show ?thesis using probabilityCorrect_strict [of theta1 theta2 params] by simp
next
  case False
  with clamp_mono [OF assms, of THETA_MIN THETA_MAX]
  have "clamp theta1 THETA_MIN THETA_MAX = clamp theta2 THETA_MIN THETA_MAX" by simp
  then show ?thesis by (simp add: probabilityCorrect_def)
qed

lemma probabilityCorrect_range:
  "clamp (guessing params) 0 0.5 < probabilityCorrect theta params \<and>
   probabilityCorrect theta params < 1"
proof -
  define c where "c = clamp (guessing params) 0 0.5"
  define e where "e = exp (- clamp (discrimination params) DISCRIMINATION_MIN DISCRIMINATION_MAX *
     (clamp theta THETA_MIN THETA_MAX - clamp (difficulty params) THETA_MIN THETA_MAX))"
  have P: "probabilityCorrect theta params = c + (1 - c) / (1 + e)"
    by (simp add: probabilityCorrect_def Let_def c_def e_def)
  have c1: "c < 1" by (simp add: c_def clamp_def)
  have e0: "0 < e" by (simp add: e_def)
  have "0 < (1 - c) / (1 + e)" using c1 e0 by (simp add: add_pos_pos)
  moreover have "(1 - c) / (1 + e) < 1 - c" using c1 e0 by (simp add: field_simps add_pos_pos)
  ultimately show ?thesis unfolding P c_def [symmetric] by simp
qed

text \<open>
  Claim C4, as stated: for fixed item parameters and every \<open>theta1 < theta2\<close>,
  \<open>probabilityCorrect theta1 < probabilityCorrect theta2\<close>. The function clamps theta to
  \<open>[-3, 3]\<close> before it evaluates the formula, so two abilities above 3 (or below -3) get the
  same probability: at 3 and 4 the values are equal.
\<close>

theorem probabilityCorrect_not_strict:
  "(3::real) < 4 \<and> \<not> probabilityCorrect 3 mcq_item < probabilityCorrect 4 mcq_item"
  by (simp add: probabilityCorrect_def clamp_def THETA_MIN_def THETA_MAX_def)

text \<open>
  Claim C4, amended: for fixed item parameters \<open>probabilityCorrect\<close> never decreases as theta
  grows, and it is strictly increasing for abilities inside the range \<open>[-3, 3]\<close> to which
  theta is clamped.
\<close>

theorem probabilityCorrect_increasing:
  "(theta1 \<le> theta2 \<longrightarrow> probabilityCorrect theta1 params \<le> probabilityCorrect theta2 params) \<and>
   (- 3 \<le> theta1 \<and> theta1 < theta2 \<and> theta2 \<le> 3 \<longrightarrow>
      probabilityCorrect theta1 params < probabilityCorrect theta2 params)"
  using probabilityCorrect_mono [of theta1 theta2 params]
    probabilityCorrect_strict [of theta1 theta2 params]
  by (simp add: clamp_id THETA_MIN_def THETA_MAX_def)

theorem probabilityCorrect_increasing_witness:
  "(0::real) \<le> 1 \<and> probabilityCorrect 0 mcq_item \<le> probabilityCorrect 1 mcq_item \<and>
   - 3 \<le> (0::real) \<and> (0::real) < 1 \<and> (1::real) \<le> 3 \<and>
   probabilityCorrect 0 mcq_item < probabilityCorrect 1 mcq_item"
  using probabilityCorrect_increasing [of 0 1 mcq_item] by simp

section \<open>The ability update\<close>

lemma updateTheta_low:
  "fisherInformation theta params < 0.001 \<Longrightarrow>
     thetaAfter (updateTheta theta params isCorrect) = theta"
  by (simp add: updateTheta_def Let_def)

lemma updateTheta_high:
  "\<not> fisherInformation theta params < 0.001 \<Longrightarrow>
     thetaAfter (updateTheta theta params isCorrect) =
       clamp (theta + ((if isCorrect then 1 else 0) - probabilityCorrect theta params)
                        / fisherInformation theta params * 0.7) THETA_MIN THETA_MAX"
  by (simp add: updateTheta_def Let_def)

lemma updateTheta_before: "thetaBefore (updateTheta theta params isCorrect) = theta"
  by (simp add: updateTheta_def Let_def)

text \<open>The information of \<open>flat_item\<close> at an ability far above its difficulty: the exponent
  is \<open>-2.5 * (3 - (-3)) = -15\<close>, and the information is \<open>6.25 * exp (-15)\<close>, about
  \<open>0.0000019\<close>.\<close>

lemma exp_15_lower: "(32768::real) \<le> exp 15"
proof -
  have "(2::real) \<le> exp 1" using exp_ge_add_one_self [of "1::real"] by simp
  then have "(2::real) ^ 15 \<le> exp 1 ^ 15" by (rule power_mono) simp
  moreover have "exp (1::real) ^ 15 = exp 15" using exp_of_nat_mult [of 15 "1::real"] by simp
  ultimately show ?thesis by simp
qed

lemma ratio_cancel:
  fixes s e k :: real
  assumes "s \<noteq> 0"
  shows "k * (1 / s) * (e / s) / (1 / s)^2 = k * e"
  using assms by (simp add: field_simps power2_eq_square)

lemma fisherInformation_flat_item: "fisherInformation 10 flat_item = 6.25 * exp (- 15)"
proof -
  define e :: real where "e = exp (- 15)"
  have e0: "0 < e" by (simp add: e_def)
  have P: "probabilityCorrect 10 flat_item = 1 / (1 + e)"
    by (simp add: probabilityCorrect_def flat_item_def clamp_def THETA_MIN_def THETA_MAX_def
        DISCRIMINATION_MIN_def DISCRIMINATION_MAX_def e_def)
  have ne: "1 + e \<noteq> 0" using e0 by simp
  have "fisherInformation 10 flat_item
          = 6.25 * (1 / (1 + e)) * (1 - 1 / (1 + e)) / (1 / (1 + e))^2"
    using ne by (simp add: fisherInformation_def P Let_def)
      (simp add: flat_item_def clamp_def DISCRIMINATION_MIN_def DISCRIMINATION_MAX_def)
  also have "\<dots> = 6.25 * (1 / (1 + e)) * (e / (1 + e)) / (1 / (1 + e))^2"
    using ne by (simp add: diff_divide_eq_iff)
  also have "\<dots> = 6.25 * e"
    using ne by (rule ratio_cancel)
  finally show ?thesis by (simp add: e_def)
qed

lemma fisherInformation_flat_item_small: "fisherInformation 10 flat_item < 0.001"
proof -
  have "exp (- 15 :: real) = 1 / exp 15" by (simp add: exp_minus field_simps)
  also have "\<dots> \<le> 1 / 32768" using exp_15_lower by (simp add: field_simps)
  finally show ?thesis by (simp add: fisherInformation_flat_item)
qed

lemma probabilityCorrect_edge_item: "probabilityCorrect 10 edge_item = 1 / 2"
  by (simp add: probabilityCorrect_def edge_item_def clamp_def THETA_MIN_def THETA_MAX_def
        DISCRIMINATION_MIN_def DISCRIMINATION_MAX_def)

lemma fisherInformation_edge_item: "fisherInformation 10 edge_item = 1"
  by (simp add: fisherInformation_def probabilityCorrect_edge_item Let_def)
     (simp add: edge_item_def clamp_def DISCRIMINATION_MIN_def DISCRIMINATION_MAX_def
        power2_eq_square)

lemma probabilityCorrect_plain_item: "probabilityCorrect 0 plain_item = 1 / 2"
  by (simp add: probabilityCorrect_def plain_item_def clamp_def THETA_MIN_def THETA_MAX_def
        DISCRIMINATION_MIN_def DISCRIMINATION_MAX_def)

lemma fisherInformation_plain_item: "fisherInformation 0 plain_item = 1"
  by (simp add: fisherInformation_def probabilityCorrect_plain_item Let_def)
     (simp add: plain_item_def clamp_def DISCRIMINATION_MIN_def DISCRIMINATION_MAX_def
        power2_eq_square)

text \<open>
  Claim C2, as stated: for every input theta, with no range precondition, \<open>thetaAfter\<close> lies
  in \<open>[-3, 3]\<close>. When the information is below 0.001 the function returns the input theta
  itself, which was never clamped: at theta 10 and \<open>flat_item\<close> the result is 10.
\<close>

theorem updateTheta_leaves_range:
  "\<not> (- 3 \<le> thetaAfter (updateTheta 10 flat_item True) \<and>
       thetaAfter (updateTheta 10 flat_item True) \<le> 3)"
  using fisherInformation_flat_item_small by (simp add: updateTheta_low)

text \<open>
  Claim C2, amended: for every item parameters and every correctness flag, \<open>thetaAfter\<close>
  lies in \<open>[-3, 3]\<close> whenever the input theta lies in \<open>[-3, 3]\<close> or the Fisher information
  at theta is at least 0.001.
\<close>

theorem updateTheta_in_range:
  assumes "(- 3 \<le> theta \<and> theta \<le> 3) \<or> \<not> fisherInformation theta params < 0.001"
  shows "- 3 \<le> thetaAfter (updateTheta theta params isCorrect) \<and>
         thetaAfter (updateTheta theta params isCorrect) \<le> 3"
proof (cases "fisherInformation theta params < 0.001")
  case True
  with assms show ?thesis by (simp add: updateTheta_low)
next
  case False
  then show ?thesis
    using clamp_bounds [of THETA_MIN THETA_MAX]
    by (simp add: updateTheta_high THETA_MIN_def THETA_MAX_def)
qed

theorem updateTheta_in_range_witness:
  "- 3 \<le> (0::real) \<and> (0::real) \<le> 3 \<and>
   - 3 \<le> thetaAfter (updateTheta 0 plain_item True) \<and>
   thetaAfter (updateTheta 0 plain_item True) \<le> 3 \<and>
   \<not> fisherInformation 10 edge_item < 0.001 \<and>
   - 3 \<le> thetaAfter (updateTheta 10 edge_item False) \<and>
   thetaAfter (updateTheta 10 edge_item False) \<le> 3"
  using updateTheta_in_range [of 0 plain_item True] updateTheta_in_range [of 10 edge_item False]
  by (simp add: fisherInformation_edge_item)

text \<open>
  Claim C3, as stated: for every theta and item with information at least 0.001, a correct
  answer gives \<open>thetaAfter \<ge> thetaBefore\<close> and an incorrect one \<open>thetaAfter \<le> thetaBefore\<close>.
  \<open>thetaBefore\<close> is the input as given and \<open>thetaAfter\<close> is clamped to \<open>[-3, 3]\<close>: from
  theta 10 a correct answer on \<open>edge_item\<close> (information 1) returns 3.
\<close>

theorem updateTheta_correct_decreases:
  "\<not> fisherInformation 10 edge_item < 0.001 \<and>
   thetaAfter (updateTheta 10 edge_item True) < thetaBefore (updateTheta 10 edge_item True)"
  by (simp add: updateTheta_def Let_def fisherInformation_edge_item
      probabilityCorrect_edge_item clamp_def THETA_MIN_def THETA_MAX_def)

text \<open>
  Claim C3, amended: for every theta and item parameters whose Fisher information at theta
  is at least 0.001, a correct answer returns \<open>thetaAfter \<ge> thetaBefore\<close> when theta is at
  most 3, and an incorrect answer returns \<open>thetaAfter \<le> thetaBefore\<close> when theta is at
  least -3.
\<close>

theorem updateTheta_direction:
  assumes "\<not> fisherInformation theta params < 0.001"
  shows "(theta \<le> 3 \<longrightarrow>
            thetaBefore (updateTheta theta params True)
              \<le> thetaAfter (updateTheta theta params True)) \<and>
         (- 3 \<le> theta \<longrightarrow>
            thetaAfter (updateTheta theta params False)
              \<le> thetaBefore (updateTheta theta params False))"
proof -
  have I: "0 < fisherInformation theta params" using assms by simp
  have P: "0 \<le> probabilityCorrect theta params" "probabilityCorrect theta params \<le> 1"
    using probabilityCorrect_range [of params theta] clamp_bounds [of 0 "0.5" "guessing params"]
    by simp_all
  have up: "0 \<le> (1 - probabilityCorrect theta params) / fisherInformation theta params * 0.7"
    using I P by simp
  have down: "(0 - probabilityCorrect theta params) / fisherInformation theta params * 0.7 \<le> 0"
    using I P by (simp add: field_simps)
  have "theta \<le> THETA_MAX \<longrightarrow> theta \<le> thetaAfter (updateTheta theta params True)"
    using clamp_add_ge [OF _ up, of theta THETA_MAX THETA_MIN]
    by (simp add: updateTheta_high [OF assms])
  moreover have "THETA_MIN \<le> theta \<longrightarrow> thetaAfter (updateTheta theta params False) \<le> theta"
    using clamp_add_le [OF _ down, of THETA_MIN theta THETA_MAX]
    by (simp add: updateTheta_high [OF assms])
  ultimately show ?thesis
    by (simp add: updateTheta_before THETA_MIN_def THETA_MAX_def)
qed

theorem updateTheta_direction_witness:
  "\<not> fisherInformation 0 plain_item < 0.001 \<and> (0::real) \<le> 3 \<and> - 3 \<le> (0::real) \<and>
   thetaBefore (updateTheta 0 plain_item True) \<le> thetaAfter (updateTheta 0 plain_item True) \<and>
   thetaAfter (updateTheta 0 plain_item False) \<le> thetaBefore (updateTheta 0 plain_item False)"
  using updateTheta_direction [of 0 plain_item] by (simp add: fisherInformation_plain_item)

section \<open>The stopping rule\<close>

lemma fisherInformation_strong_item: "fisherInformation 0 strong_item = 6.25"
  by (simp add: fisherInformation_def probabilityCorrect_def clamp_def strong_item_def
      THETA_MIN_def THETA_MAX_def DISCRIMINATION_MIN_def DISCRIMINATION_MAX_def Let_def
      power2_eq_square)

lemma calculateStandardError_strong_items:
  "calculateStandardError 0 [strong_item, strong_item, strong_item] = 1 / sqrt 18.75"
  by (simp add: calculateStandardError_def fisherInformation_strong_item Let_def)

lemma standard_error_below_target: "1 / sqrt (18.75::real) < 0.3"
proof -
  have "(10 / 3 :: real) = sqrt ((10 / 3)^2)" by simp
  also have "\<dots> < sqrt 18.75" by (rule real_sqrt_less_mono) (simp add: power2_eq_square)
  finally have "(10 / 3 :: real) < sqrt 18.75" .
  then show ?thesis by (simp add: field_simps)
qed

text \<open>
  Claim C1: with \<open>currentCount = 3\<close> and \<open>maxQuestions > 3\<close>, \<open>shouldStopCAT\<close> returns
  \<open>stop = false\<close> with the reason "minimum not reached", whatever the standard error. The
  source tests the standard error before the minimum count (its comment on the later test
  reads "Minimum questions before checking precision"), so three administered items of
  discrimination 2.5 at the learner's ability, each of information 6.25, give a standard
  error of about 0.231, below the target 0.3, and the session stops after three questions
  of at most ten.
\<close>

theorem shouldStopCAT_stops_below_minimum:
  "shouldStopCAT 0 [strong_item, strong_item, strong_item] 10 3 0.3
     = \<lparr>stop = True, reason = Target_precision_achieved (1 / sqrt 18.75)\<rparr>"
  using standard_error_below_target
  by (simp add: shouldStopCAT_def calculateStandardError_strong_items Let_def)


section \<open>The item selector\<close>

lemma select_loop_range:
  "select_loop currentTheta rnd k qs m opt \<in> insert opt (Some ` set qs)"
proof (induction qs arbitrary: k m opt)
  case Nil
  show ?case by simp
next
  case (Cons q qs)
  show ?case
    using Cons.IH [of "Suc k" m opt] Cons.IH [of "Suc k" _ "Some q"]
    by (auto simp add: Let_def)
qed

text \<open>An ability that is not \<open>NaN\<close> gives every candidate a finite score.\<close>

lemma fisherInformation_number_finite:
  "currentTheta \<noteq> NaN \<Longrightarrow> \<exists>y. fisherInformation_number currentTheta params = Finite y"
  by (cases currentTheta) (simp_all add: fisherInformation_number_def)

text \<open>Every finite score exceeds the start value \<open>-Infinity\<close>, so with such an ability the
  first candidate of a pool is always taken, and the loop does not end with \<open>null\<close> on a
  pool that has a member.\<close>

lemma select_loop_first:
  assumes "currentTheta \<noteq> NaN"
  shows "select_loop currentTheta rnd k (q # qs) NegInfinity opt \<in> Some ` set (q # qs)"
proof -
  obtain y where y: "fisherInformation_number currentTheta
      \<lparr>difficulty = difficulty q, discrimination = discrimination q,
       guessing = GUESSING_DEFAULT\<rparr> = Finite y"
    using fisherInformation_number_finite [OF assms] by blast
  show ?thesis
    using select_loop_range [of currentTheta rnd "Suc k" qs _ "Some q"]
    by (auto simp add: Let_def y)
qed

lemma select_loop_nonempty:
  "currentTheta \<noteq> NaN \<Longrightarrow> qs \<noteq> [] \<Longrightarrow>
     select_loop currentTheta rnd k qs NegInfinity opt \<in> Some ` set qs"
  using select_loop_first by (cases qs) blast+

text \<open>With the ability \<open>NaN\<close> every score is \<open>NaN\<close>, no comparison succeeds, and the loop
  returns the \<open>optimalQuestion\<close> it started with.\<close>

lemma select_loop_NaN: "select_loop NaN rnd k qs m opt = opt"
  by (induction qs arbitrary: k) (simp_all add: Let_def fisherInformation_number_def)

lemma select_loop_guessing:
  "select_loop currentTheta rnd k (map (set_guessing f) qs) m (map_option (set_guessing f) opt)
     = map_option (set_guessing f) (select_loop currentTheta rnd k qs m opt)"
proof (induction qs arbitrary: k m opt)
  case Nil
  show ?case by simp
next
  case (Cons q qs)
  show ?case
    using Cons.IH [of "Suc k" m opt] Cons.IH [of "Suc k" _ "Some q"]
    by (simp add: Let_def set_guessing_def)
qed

text \<open>
  Claim C9, as stated: \<open>selectOptimalQuestion\<close> returns none exactly when every candidate
  of the pool has been answered. The ability is a \<open>number\<close> and the function has no guard
  on it: with the ability \<open>NaN\<close> the score of every candidate is \<open>NaN\<close>, the test
  \<open>adjustedInfo > maxInformation\<close> is false each time, and the function returns none
  although the one candidate of the pool is unanswered.
\<close>

theorem selectOptimalQuestion_NaN_none:
  "q_one \<in> set [q_one] \<and> qid q_one \<notin> {} \<and>
   selectOptimalQuestion NaN [q_one] {} half_stream = None"
  by (simp add: selectOptimalQuestion_def select_loop_NaN del: select_loop.simps)

text \<open>
  Claim C9, amended: \<open>selectOptimalQuestion\<close> returns either none or one of the unanswered
  candidates, both as values of its result (the source has no \<open>throw\<close>, and the function
  is total for every ability, pool, answered set and random stream); when the ability is
  not \<open>NaN\<close>, it returns none exactly when every candidate of the pool has been answered,
  so that it returns an unanswered candidate whenever one remains. The difficulty and
  discrimination of the candidates are real numbers.
\<close>

theorem selectOptimalQuestion_none_iff:
  "(currentTheta \<noteq> NaN \<longrightarrow>
      (selectOptimalQuestion currentTheta questions answered rnd = None
         \<longleftrightarrow> (\<forall>q \<in> set questions. qid q \<in> answered))) \<and>
   (\<forall>q. selectOptimalQuestion currentTheta questions answered rnd = Some q
      \<longrightarrow> q \<in> set questions \<and> qid q \<notin> answered)"
proof (cases "filter (\<lambda>q. qid q \<notin> answered) questions = []")
  case True
  then have "\<forall>q \<in> set questions. qid q \<in> answered"
    by (simp add: filter_empty_conv)
  with True show ?thesis by (simp add: selectOptimalQuestion_def)
next
  case False
  then have ex: "\<not> (\<forall>q \<in> set questions. qid q \<in> answered)"
    by (simp add: filter_empty_conv)
  have r: "select_loop currentTheta rnd 0 (filter (\<lambda>q. qid q \<notin> answered) questions)
             NegInfinity None
          \<in> insert None (Some ` set (filter (\<lambda>q. qid q \<notin> answered) questions))"
    by (rule select_loop_range)
  have n: "currentTheta \<noteq> NaN \<longrightarrow>
      select_loop currentTheta rnd 0 (filter (\<lambda>q. qid q \<notin> answered) questions)
             NegInfinity None
          \<in> Some ` set (filter (\<lambda>q. qid q \<notin> answered) questions)"
    using False select_loop_nonempty by blast
  from False ex r n show ?thesis by (auto simp add: selectOptimalQuestion_def)
qed

theorem selectOptimalQuestion_none_iff_witness:
  "Finite 0 \<noteq> NaN \<and> qid q_one \<in> {''q1''} \<and> qid q_two \<notin> {''q1''} \<and>
   selectOptimalQuestion (Finite 0) [q_one, q_two] {''q1''} half_stream = Some q_two \<and>
   qid q_one \<in> {''q1'', ''q2''} \<and> qid q_two \<in> {''q1'', ''q2''} \<and>
   selectOptimalQuestion (Finite 0) [q_one, q_two] {''q1'', ''q2''} half_stream = None"
  using selectOptimalQuestion_none_iff [of "Finite 0" "[q_one, q_two]" "{''q1''}" half_stream]
    selectOptimalQuestion_none_iff
      [of "Finite 0" "[q_one, q_two]" "{''q1'', ''q2''}" half_stream]
  by (auto simp add: q_one_def q_two_def)

text \<open>
  Claim C10: the choice of \<open>selectOptimalQuestion\<close> does not depend on the candidates'
  guessing parameters. For every ability (\<open>NaN\<close> and the infinities included), pool,
  answered set and random stream, and every replacement \<open>f\<close> of the guessing values, the
  selector run on the pool with the guessing values replaced picks the same candidate
  (carrying its replaced guessing value) as on the pool as given: the loop scores each
  candidate with \<open>GUESSING_DEFAULT\<close>.
\<close>

theorem selection_ignores_guessing:
  "selectOptimalQuestion currentTheta (map (set_guessing f) questions) answered rnd
     = map_option (set_guessing f) (selectOptimalQuestion currentTheta questions answered rnd)"
proof -
  have "filter (\<lambda>q. qid q \<notin> answered) (map (set_guessing f) questions)
          = map (set_guessing f) (filter (\<lambda>q. qid q \<notin> answered) questions)"
    by (simp add: filter_map comp_def set_guessing_def)
  then show ?thesis
    using select_loop_guessing [of currentTheta rnd 0 f _ NegInfinity None]
    by (simp add: selectOptimalQuestion_def)
qed


section \<open>The review scheduler\<close>

lemma calculateNextReview_quality_5:
  "interval (calculateNextReview now p 5) =
     (if repetitions p = 0 then 1 else if repetitions p = 1 then 3
      else Math_round (interval p * easeFactor p))"
  "repetitions (calculateNextReview now p 5) = repetitions p + 1"
  "easeFactor (calculateNextReview now p 5) = max 1.3 (easeFactor p + 0.1)"
  by (simp_all add: calculateNextReview_def clamp_def QUALITY_MIN_def QUALITY_MAX_def Let_def
      INTERVALS_FIRST_def INTERVALS_SECOND_def EASE_FACTOR_MIN_def)

lemma ease_step: "EASE_FACTOR_MIN \<le> easeFactor (calculateNextReview now currentParams q)"
  by (simp add: calculateNextReview_def Let_def split: prod.splits)

lemma ease_run:
  "EASE_FACTOR_MIN \<le> easeFactor current \<Longrightarrow>
     EASE_FACTOR_MIN \<le> easeFactor (review_run current steps)"
proof (induction steps arbitrary: current)
  case Nil
  then show ?case by simp
next
  case (Cons s steps)
  obtain now q where s: "s = (now, q)" by (cases s)
  show ?case unfolding s by (simp add: Cons.IH ease_step)
qed

text \<open>
  Claim C5: from a card with the default parameters (ease factor 2.5, interval 1,
  repetitions 0), three consecutive reviews of quality 5, each fed the card the previous
  one returned, give the intervals 1, 3 and 8, whatever the clock reads at each call.
\<close>

theorem interval_sequence_quality_5:
  "interval (calculateNextReview now1 new_card 5) = 1 \<and>
   interval (calculateNextReview now2 (calculateNextReview now1 new_card 5) 5) = 3 \<and>
   interval (calculateNextReview now3
      (calculateNextReview now2 (calculateNextReview now1 new_card 5) 5) 5) = 8"
  by (simp add: calculateNextReview_quality_5 new_card_def EASE_FACTOR_DEFAULT_def
      Math_round_def)

text \<open>
  Claim C6: for every card (any ease factor, interval and repetitions) and every quality
  rating below 3, the returned card has repetitions 0 and interval 1.
\<close>

theorem failed_recall_resets:
  "quality_in < 3 \<Longrightarrow>
     repetitions (calculateNextReview now currentParams quality_in) = 0 \<and>
     interval (calculateNextReview now currentParams quality_in) = 1"
  by (simp add: calculateNextReview_def clamp_def QUALITY_MIN_def QUALITY_MAX_def Let_def
      INTERVALS_FIRST_def)

theorem failed_recall_resets_witness:
  "(2::real) < 3 \<and> repetitions mature_card = 5 \<and>
   repetitions (calculateNextReview 0 mature_card 2) = 0 \<and>
   interval (calculateNextReview 0 mature_card 2) = 1"
  using failed_recall_resets [of 2 0 mature_card] by (simp add: mature_card_def)

text \<open>
  Claim C7: for every card with ease factor at least 1.3 and every quality rating in
  \<open>[0, 5]\<close>, the card returned by a review has an ease factor of at least 1.3 (it holds
  for every card and every rating, those included); and from a card with ease factor at
  least 1.3, a run of consecutive reviews of quality 0, of any length, ends with an ease
  factor of at least 1.3.
\<close>

theorem ease_floor:
  "1.3 \<le> easeFactor (calculateNextReview now currentParams q) \<and>
   (1.3 \<le> easeFactor current \<longrightarrow>
      1.3 \<le> easeFactor (review_run current (map (\<lambda>now. (now, 0)) nows)))"
  using ease_step [of now currentParams q] ease_run [of current "map (\<lambda>now. (now, 0)) nows"]
  by (simp add: EASE_FACTOR_MIN_def)

theorem ease_floor_witness:
  "1.3 \<le> easeFactor floor_card \<and>
   1.3 \<le> easeFactor (calculateNextReview 0 floor_card 0) \<and>
   1.3 \<le> easeFactor (review_run floor_card (map (\<lambda>now. (now, 0)) [0, 86400000, 172800000]))"
  using ease_floor [of 0 floor_card 0 floor_card "[0, 86400000, 172800000]"]
  by (simp add: floor_card_def)


section \<open>Due reviews\<close>

lemma setHours_end_lower: "d \<le> setHours_end d"
proof -
  have "d mod MS_PER_DAY < MS_PER_DAY" by (simp add: MS_PER_DAY_def)
  moreover have "d = (d div MS_PER_DAY) * MS_PER_DAY + d mod MS_PER_DAY" by simp
  ultimately show ?thesis unfolding setHours_end_def by linarith
qed

lemma setHours_end_upper: "setHours_end d < d + MS_PER_DAY"
proof -
  have "0 \<le> d mod MS_PER_DAY" by (simp add: MS_PER_DAY_def)
  moreover have "d = (d div MS_PER_DAY) * MS_PER_DAY + d mod MS_PER_DAY" by simp
  ultimately show ?thesis unfolding setHours_end_def by linarith
qed

lemma due_iff:
  "item \<in> set (getDueReviews items asOfDate)
     \<longleftrightarrow> item \<in> set items \<and> nextReviewDate item \<le> setHours_end asOfDate"
  by (auto simp add: getDueReviews_def Let_def)

text \<open>
  Claim C8: a card of the list whose \<open>nextReviewDate\<close> is exactly three days after \<open>today\<close>
  is absent from \<open>getDueReviews\<close> evaluated at any time of today's date (\<open>k = 0\<close>) and of
  tomorrow's (\<open>k = 1\<close>), and present on day 3 (\<open>k = 3\<close>): evaluated at a time \<open>k\<close> calendar
  days after today, the query holds the card exactly when \<open>k\<close> is at least 3.
\<close>

theorem due_from_day_3:
  assumes "nextReviewDate item = addDays today 3"
    and "item \<in> set items"
    and "asOfDate div MS_PER_DAY = today div MS_PER_DAY + k"
  shows "item \<in> set (getDueReviews items asOfDate) \<longleftrightarrow> 3 \<le> k"
proof -
  have pos: "0 < MS_PER_DAY" by (simp add: MS_PER_DAY_def)
  have e: "setHours_end asOfDate = addDays (setHours_end today) k"
    using assms(3) by (simp add: setHours_end_def addDays_def algebra_simps)
  have lo: "today \<le> setHours_end today" by (rule setHours_end_lower)
  have up: "setHours_end today < today + MS_PER_DAY" by (rule setHours_end_upper)
  have "nextReviewDate item \<le> setHours_end asOfDate \<longleftrightarrow> 3 \<le> k"
  proof
    assume "nextReviewDate item \<le> setHours_end asOfDate"
    then have "today + 3 * MS_PER_DAY < today + MS_PER_DAY + k * MS_PER_DAY"
      using up by (simp add: e assms(1) addDays_def)
    then have "(3 - 1 - k) * MS_PER_DAY < 0" by (simp add: algebra_simps)
    then have "3 - 1 - k < 0" using pos by (simp add: mult_less_0_iff)
    then show "3 \<le> k" by simp
  next
    assume "3 \<le> k"
    then have "3 * MS_PER_DAY \<le> k * MS_PER_DAY" using pos by simp
    then show "nextReviewDate item \<le> setHours_end asOfDate"
      using lo by (simp add: e assms(1) addDays_def)
  qed
  then show ?thesis using assms(2) by (simp add: due_iff)
qed

theorem due_from_day_3_witness:
  "nextReviewDate due_item = addDays 1000 3 \<and> due_item \<in> set [due_item] \<and>
   (1000 :: int) div MS_PER_DAY = 1000 div MS_PER_DAY + 0 \<and>
   (addDays 5000 1) div MS_PER_DAY = 1000 div MS_PER_DAY + 1 \<and>
   (addDays 5000 3) div MS_PER_DAY = 1000 div MS_PER_DAY + 3 \<and>
   due_item \<notin> set (getDueReviews [due_item] 1000) \<and>
   due_item \<notin> set (getDueReviews [due_item] (addDays 5000 1)) \<and>
   due_item \<in> set (getDueReviews [due_item] (addDays 5000 3))"
proof -
  have n: "nextReviewDate due_item = addDays 1000 3" by (simp add: due_item_def)
  have m: "due_item \<in> set [due_item]" by simp
  have d0: "(1000 :: int) div MS_PER_DAY = 1000 div MS_PER_DAY + 0" by simp
  have d1: "(addDays 5000 1) div MS_PER_DAY = 1000 div MS_PER_DAY + 1"
    by (simp add: addDays_def MS_PER_DAY_def)
  have d3: "(addDays 5000 3) div MS_PER_DAY = 1000 div MS_PER_DAY + 3"
    by (simp add: addDays_def MS_PER_DAY_def)
  show ?thesis
    using n m d0 d1 d3 due_from_day_3 [OF n m d0] due_from_day_3 [OF n m d1]
      due_from_day_3 [OF n m d3]
    by simp
qed


end
